theory Spec2Isabelle
  imports Main
begin

section \<open>The DOM capability (goquery selections over parsed HTML)\<close>

text \<open>
  The form code of \<^verbatim>\<open>browser/form.go\<close> reads the document through three operations
  of a goquery selection: \<^verbatim>\<open>Find\<close> (descendants matching a tag selector, in document
  order), \<^verbatim>\<open>Attr\<close> (attribute value and presence flag) and \<^verbatim>\<open>Text\<close> (concatenated
  text content). A selection rooted at one element is a tree node here; an attribute
  list keeps the parser's order and \<^verbatim>\<open>Attr\<close> reads the first entry with the key.
\<close>

datatype node = Element string "(string \<times> string) list" "node list" | TextNode string

fun descendants :: "node \<Rightarrow> node list" where
  "descendants (Element t as cs) = concat (map (\<lambda>c. c # descendants c) cs)"
| "descendants (TextNode s) = []"

fun is_tag :: "string \<Rightarrow> node \<Rightarrow> bool" where
  "is_tag t (Element t' as cs) = (t = t')"
| "is_tag t (TextNode s) = False"

fun Attr :: "node \<Rightarrow> string \<Rightarrow> string option" where
  "Attr (Element t as cs) k = map_of as k"
| "Attr (TextNode s) k = None"

fun Text :: "node \<Rightarrow> string" where
  "Text (TextNode s) = s"
| "Text (Element t as cs) = concat (map Text cs)"

text \<open>\<^verbatim>\<open>sel.Find("input,button")\<close>, \<^verbatim>\<open>sel.Find("select")\<close>, \<^verbatim>\<open>sel.Find("textarea")\<close>:
  the descendants whose tag is one of the listed ones, in document order.\<close>

definition Find :: "node \<Rightarrow> string list \<Rightarrow> node list" where
  "Find sel tags = filter (\<lambda>n. \<exists>t \<in> set tags. is_tag t n) (descendants sel)"

text \<open>\<^verbatim>\<open>s.Find("option[selected]")\<close>: descendant \<^verbatim>\<open>option\<close> elements that carry a
  \<^verbatim>\<open>selected\<close> attribute.\<close>

definition Find_option_selected :: "node \<Rightarrow> node list" where
  "Find_option_selected s =
     filter (\<lambda>n. is_tag ''option'' n \<and> Attr n ''selected'' \<noteq> None) (descendants s)"

section \<open>\<^verbatim>\<open>url.Values\<close> and \<^verbatim>\<open>strings.ToUpper\<close>\<close>

text \<open>\<^verbatim>\<open>url.Values\<close> is \<^verbatim>\<open>map[string][]string\<close>; its four methods as the Go standard
  library defines them.\<close>

type_synonym Values = "string \<rightharpoonup> string list"

definition Values_Get :: "Values \<Rightarrow> string \<Rightarrow> string" where
  "Values_Get v key = (case v key of None \<Rightarrow> '''' | Some [] \<Rightarrow> '''' | Some (x # xs) \<Rightarrow> x)"

definition Values_Set :: "Values \<Rightarrow> string \<Rightarrow> string \<Rightarrow> Values" where
  "Values_Set v key val = v(key \<mapsto> [val])"

definition Values_Add :: "Values \<Rightarrow> string \<Rightarrow> string \<Rightarrow> Values" where
  "Values_Add v key val = v(key \<mapsto> (case v key of None \<Rightarrow> [] | Some xs \<Rightarrow> xs) @ [val])"

definition Values_Del :: "Values \<Rightarrow> string \<Rightarrow> Values" where
  "Values_Del v key = v(key := None)"

text \<open>Indexing a \<^verbatim>\<open>map[string]bool\<close>: a missing key reads as \<^verbatim>\<open>false\<close>.\<close>

definition index_bool :: "(string \<rightharpoonup> bool) \<Rightarrow> string \<Rightarrow> bool" where
  "index_bool m k = (case m k of None \<Rightarrow> False | Some b \<Rightarrow> b)"

text \<open>
  \<^verbatim>\<open>strings.ToUpper\<close> on the bytes of the string: the ASCII letters a to z are mapped to
  A to Z and every other byte is kept. Go maps the non-ASCII letters of a string by
  the Unicode tables as well; no code point outside ASCII has G, E or T as its upper
  case, so the only use made of the result here, the comparison with \<^verbatim>\<open>"GET"\<close>, is the
  same.
\<close>

definition upper_byte :: "char \<Rightarrow> char" where
  "upper_byte c =
     (let n = (of_char c :: nat) in if 97 \<le> n \<and> n \<le> 122 then char_of (n - 32) else c)"

definition ToUpper :: "string \<Rightarrow> string" where
  "ToUpper s = map upper_byte s"

section \<open>Errors, collaborators and the form\<close>

text \<open>
  Modelled from the spec: the constructors \<^verbatim>\<open>errors.NewElementNotFound\<close> and
  \<^verbatim>\<open>errors.NewInvalidFormValue\<close> of the repository's \<^verbatim>\<open>errors\<close> package are not among
  the sources; the spec has two error kinds, unknown field and unknown button, each
  carrying the offending name. The string is the formatted message, built from the
  format string at the call site. \<open>OtherError\<close> stands for an error of \<^verbatim>\<open>url.Parse\<close> or of
  the session, passed through unchanged. \<open>IndexOutOfRange\<close> is the run-time panic of
  reading element 0 of an empty slice.
\<close>

datatype error =
    ElementNotFound string
  | InvalidFormValue string
  | OtherError string
  | IndexOutOfRange

definition NewElementNotFound :: "string \<Rightarrow> error" where
  "NewElementNotFound name = ElementNotFound (''No input found with name '' @ [CHR 0x27] @ name @ [CHR 0x27] @ ''.'')"

definition NewInvalidFormValue :: "string \<Rightarrow> error" where
  "NewInvalidFormValue button =
     InvalidFormValue (''Form does not contain a button with the name '' @ [CHR 0x27] @ button @ [CHR 0x27] @ ''.'')"

text \<open>The three transport operations of the owning session, as the calls the form makes.\<close>

datatype call =
    OpenForm string Values
  | PostForm string Values
  | PostMultipart string Values

text \<open>
  The \<^verbatim>\<open>Browsable\<close> collaborator, with \<^verbatim>\<open>url.Parse\<close> and \<^verbatim>\<open>(*URL).String\<close> of the standard
  library beside it; \<open>'u\<close> is the type of parsed URLs. \<open>transport\<close> is the error (or nil)
  that the session returns from a transport call.
\<close>

record 'u Browsable =
  Parse :: "string \<Rightarrow> error + 'u"
  String :: "'u \<Rightarrow> string"
  Url :: "'u"
  ResolveUrl :: "'u \<Rightarrow> 'u"
  transport :: "call \<Rightarrow> error option"

record 'u Form =
  bow :: "'u Browsable"
  selection :: node
  form_method :: string
  action :: string
  definedFields :: "string \<rightharpoonup> bool"
  fields_map :: Values
  buttons :: Values

section \<open>Extraction: \<^verbatim>\<open>serializeForm\<close>, \<^verbatim>\<open>formAttributes\<close>, \<^verbatim>\<open>NewForm\<close>\<close>

type_synonym extraction = "(string \<rightharpoonup> bool) \<times> Values \<times> Values"

text \<open>The body of the callback of \<^verbatim>\<open>input.Each\<close>.\<close>

definition input_each :: "node \<Rightarrow> extraction \<Rightarrow> extraction" where
  "input_each s st =
     (case st of (defined, flds, btns) \<Rightarrow>
        (case Attr s ''name'' of
           None \<Rightarrow> st
         | Some name \<Rightarrow>
             (case Attr s ''type'' of
                None \<Rightarrow> st
              | Some typ \<Rightarrow>
                  if typ = ''submit'' then
                    (case Attr s ''value'' of
                       Some val \<Rightarrow> (defined, flds, Values_Add btns name val)
                     | None \<Rightarrow> (defined, flds, Values_Add btns name ''''))
                  else if typ = ''radio'' \<or> typ = ''checkbox'' then
                    (case Attr s ''checked'' of
                       Some c \<Rightarrow>
                         (case Attr s ''value'' of
                            Some val \<Rightarrow> (defined(name \<mapsto> True), Values_Add flds name val, btns)
                          | None \<Rightarrow> (defined(name \<mapsto> True), flds, btns))
                     | None \<Rightarrow> (defined(name \<mapsto> True), flds, btns))
                  else
                    (case Attr s ''value'' of
                       Some val \<Rightarrow> (defined(name \<mapsto> True), Values_Add flds name val, btns)
                     | None \<Rightarrow> (defined(name \<mapsto> True), flds, btns)))))"

text \<open>The callback of the inner \<^verbatim>\<open>Each\<close> over the selected options of one select.\<close>

definition option_each :: "string \<Rightarrow> node \<Rightarrow> Values \<Rightarrow> Values" where
  "option_each name so flds =
     (case Attr so ''value'' of Some val \<Rightarrow> Values_Add flds name val | None \<Rightarrow> flds)"

definition select_each :: "node \<Rightarrow> extraction \<Rightarrow> extraction" where
  "select_each s st =
     (case st of (defined, flds, btns) \<Rightarrow>
        (case Attr s ''name'' of
           None \<Rightarrow> st
         | Some name \<Rightarrow>
             (defined(name \<mapsto> True),
              fold (option_each name) (Find_option_selected s) flds,
              btns)))"

definition textarea_each :: "node \<Rightarrow> extraction \<Rightarrow> extraction" where
  "textarea_each s st =
     (case st of (defined, flds, btns) \<Rightarrow>
        (case Attr s ''name'' of
           None \<Rightarrow> st
         | Some name \<Rightarrow> (defined(name \<mapsto> True), Values_Add flds name (Text s), btns)))"

definition serializeForm :: "node \<Rightarrow> extraction" where
  "serializeForm sel =
     fold textarea_each (Find sel [''textarea''])
       (fold select_each (Find sel [''select''])
          (fold input_each (Find sel [''input'', ''button'']) (Map.empty, Map.empty, Map.empty)))"

definition formAttributes :: "'u Browsable \<Rightarrow> node \<Rightarrow> string \<times> string" where
  "formAttributes b s =
     (let meth = (case Attr s ''method'' of Some m \<Rightarrow> m | None \<Rightarrow> ''GET'');
          act = (case Attr s ''action'' of Some a \<Rightarrow> a | None \<Rightarrow> String b (Url b))
      in case Parse b act of
           Inl err \<Rightarrow> ('''', '''')
         | Inr aurl \<Rightarrow> (ToUpper meth, String b (ResolveUrl b aurl)))"

definition NewForm :: "'u Browsable \<Rightarrow> node \<Rightarrow> 'u Form" where
  "NewForm b s =
     (case serializeForm s of (defined, flds, btns) \<Rightarrow>
        (case formAttributes b s of (m, a) \<Rightarrow>
           \<lparr>bow = b, selection = s, form_method = m, action = a,
            definedFields = defined, fields_map = flds, buttons = btns\<rparr>))"

section \<open>The field store\<close>

definition SetAction :: "'u Form \<Rightarrow> string \<Rightarrow> 'u Form" where
  "SetAction f aurl = f\<lparr>action := aurl\<rparr>"

definition Field :: "'u Form \<Rightarrow> string \<Rightarrow> string \<times> bool" where
  "Field f name =
     (if index_bool (definedFields f) name then (Values_Get (fields_map f) name, True)
      else ('''', False))"

text \<open>The mutating methods return the form after the call and the error (\<open>None\<close> is nil).\<close>

definition Input :: "'u Form \<Rightarrow> string \<Rightarrow> string \<Rightarrow> 'u Form \<times> error option" where
  "Input f name val =
     (if index_bool (definedFields f) name
      then (f\<lparr>fields_map := Values_Set (fields_map f) name val\<rparr>, None)
      else (f, Some (NewElementNotFound name)))"

definition DeleteField :: "'u Form \<Rightarrow> string \<Rightarrow> 'u Form \<times> error option" where
  "DeleteField f name =
     (if index_bool (definedFields f) name
      then (f\<lparr>fields_map := Values_Del (fields_map f) name\<rparr>, None)
      else (f, Some (NewElementNotFound name)))"

definition InputSlice :: "'u Form \<Rightarrow> string \<Rightarrow> string list \<Rightarrow> 'u Form \<times> error option" where
  "InputSlice f name vals =
     (if index_bool (definedFields f) name
      then (f\<lparr>fields_map := fold (\<lambda>v fs. Values_Add fs name v) vals (Values_Del (fields_map f) name)\<rparr>, None)
      else (f, Some (NewElementNotFound name)))"

definition CheckBox :: "'u Form \<Rightarrow> string \<Rightarrow> string list \<Rightarrow> 'u Form \<times> error option" where
  "CheckBox f name vals = InputSlice f name vals"

section \<open>Submission\<close>

text \<open>
  \<open>send\<close>, \<open>Click\<close> and \<open>Submit\<close> do not change the form; their result is the list of
  transport calls made on the session and the error returned.
\<close>

text \<open>
  Lines 148 to 159 of \<open>send\<close>: the action is the one stored in the form (set by
  \<^verbatim>\<open>NewForm\<close> or \<^verbatim>\<open>SetAction\<close>) when it is not empty, else the \<^verbatim>\<open>action\<close> attribute,
  else the session's current URL; it is parsed, which may fail, and resolved. The
  result is the \<^verbatim>\<open>aurl.String()\<close> that the transport call receives.
\<close>

definition send_target :: "'u Form \<Rightarrow> error + string" where
  "send_target f =
     (let act = (if action f = ''''
                 then (case Attr (selection f) ''action'' of
                         Some a \<Rightarrow> a
                       | None \<Rightarrow> String (bow f) (Url (bow f)))
                 else action f)
      in case Parse (bow f) act of
           Inl err \<Rightarrow> Inl err
         | Inr aurl \<Rightarrow> Inr (String (bow f) (ResolveUrl (bow f) aurl)))"

definition send :: "'u Form \<Rightarrow> string \<Rightarrow> string \<Rightarrow> call list \<times> error option" where
  "send f buttonName buttonValue =
     (let meth = (case Attr (selection f) ''method'' of Some m \<Rightarrow> m | None \<Rightarrow> ''GET'')
      in case send_target f of
           Inl err \<Rightarrow> ([], Some err)
         | Inr aurl \<Rightarrow>
             (let values = (if buttonName \<noteq> ''''
                            then Values_Set (fields_map f) buttonName buttonValue
                            else fields_map f)
              in if ToUpper meth = ''GET''
                 then ([OpenForm aurl values], transport (bow f) (OpenForm aurl values))
                 else if (case Attr (selection f) ''enctype'' of Some e \<Rightarrow> e | None \<Rightarrow> '''')
                           = ''multipart/form-data''
                 then ([PostMultipart aurl values], transport (bow f) (PostMultipart aurl values))
                 else ([PostForm aurl values], transport (bow f) (PostForm aurl values))))"

definition Click :: "'u Form \<Rightarrow> string \<Rightarrow> call list \<times> error option" where
  "Click f button =
     (case buttons f button of
        None \<Rightarrow> ([], Some (NewInvalidFormValue button))
      | Some [] \<Rightarrow> ([], Some IndexOutOfRange)
      | Some (v # vs) \<Rightarrow> send f button v)"

text \<open>
  \<open>Submit\<close> clicks the button that the iteration over the map \<^verbatim>\<open>f.buttons\<close> yields first;
  Go leaves that order open, so every key is a possible choice.
\<close>

inductive Submit :: "'u Form \<Rightarrow> call list \<times> error option \<Rightarrow> bool" where
  Submit_click: "buttons f \<noteq> Map.empty \<Longrightarrow> name \<in> dom (buttons f) \<Longrightarrow> Submit f (Click f name)"
| Submit_plain: "buttons f = Map.empty \<Longrightarrow> Submit f (send f '''' '''')"

section \<open>Sequences of field operations\<close>

datatype field_op =
    OpInput string string
  | OpInputSlice string "string list"
  | OpCheckBox string "string list"
  | OpDeleteField string

fun apply_op :: "field_op \<Rightarrow> 'u Form \<Rightarrow> 'u Form \<times> error option" where
  "apply_op (OpInput name val) f = Input f name val"
| "apply_op (OpInputSlice name vals) f = InputSlice f name vals"
| "apply_op (OpCheckBox name vals) f = CheckBox f name vals"
| "apply_op (OpDeleteField name) f = DeleteField f name"

text \<open>A caller's sequence of calls, going on after a failing one.\<close>

definition run_ops :: "field_op list \<Rightarrow> 'u Form \<Rightarrow> 'u Form" where
  "run_ops ops f = fold (\<lambda>op g. fst (apply_op op g)) ops f"

section \<open>The forms of the test file and a session to submit them to\<close>

text \<open>
  \<^verbatim>\<open>htmlForm\<close> and \<^verbatim>\<open>htmlForm2\<close> of \<^verbatim>\<open>form_test.go\<close> as trees (the white space between the
  controls left out; an attribute written without a value has the empty string), and
  a session at \<^verbatim>\<open>http://127.0.0.1/\<close> whose URLs are strings that always parse and whose
  transport never fails.
\<close>

definition test_bow :: "string Browsable" where
  "test_bow =
     \<lparr>Parse = Inr, String = (\<lambda>u. u), Url = ''http://127.0.0.1/'',
      ResolveUrl = (\<lambda>u. if u = ''/'' then ''http://127.0.0.1/'' else u),
      transport = (\<lambda>c. None)\<rparr>"

definition htmlForm :: node where
  "htmlForm =
     Element ''form'' [(''method'', ''post''), (''action'', ''/''), (''name'', ''default'')]
       [Element ''input'' [(''type'', ''text''), (''name'', ''age''), (''value'', '''')] [],
        Element ''input'' [(''type'', ''radio''), (''name'', ''gender''), (''value'', ''male'')] [],
        Element ''input'' [(''type'', ''radio''), (''name'', ''gender''), (''value'', ''female'')] [],
        Element ''input'' [(''type'', ''submit''), (''name'', ''submit1''), (''value'', ''submitted1'')] [],
        Element ''input'' [(''type'', ''submit''), (''name'', ''submit2''), (''value'', ''submitted2'')] []]"

definition htmlForm2 :: node where
  "htmlForm2 =
     Element ''form'' [(''method'', ''post''), (''action'', ''/''), (''name'', ''default'')]
       [Element ''input'' [(''type'', ''text''), (''name'', ''will_be_deleted''), (''value'', ''aaa'')] [],
        Element ''input'' [(''type'', ''text''), (''name'', ''company''), (''value'', ''none'')] [],
        Element ''input'' [(''type'', ''text''), (''name'', ''age''), (''value'', ''55'')] [],
        Element ''input'' [(''type'', ''radio''), (''name'', ''gender''), (''value'', ''male''), (''checked'', '''')] [],
        Element ''input'' [(''type'', ''radio''), (''name'', ''gender''), (''value'', ''female'')] [],
        Element ''input'' [(''type'', ''checkbox''), (''name'', ''music''), (''value'', ''jazz''), (''checked'', ''checked'')] [],
        Element ''input'' [(''type'', ''checkbox''), (''name'', ''music''), (''value'', ''rock'')] [],
        Element ''input'' [(''type'', ''checkbox''), (''name'', ''music''), (''value'', ''fusion''), (''checked'', '''')] [],
        Element ''select'' [(''name'', ''city'')]
          [Element ''option'' [(''value'', ''NY''), (''selected'', '''')] [],
           Element ''option'' [(''value'', ''Tokyo'')] []],
        Element ''textarea'' [(''name'', ''hobby'')] [TextNode ''Dance''],
        Element ''input'' [(''type'', ''submit''), (''name'', ''submit2''), (''value'', ''submitted2'')] []]"

section \<open>Further forms and a predicate on value maps\<close>

text \<open>A submit control whose \<^verbatim>\<open>name\<close> attribute is present and empty, beside a text field.\<close>

definition emptyNameButtonForm :: node where
  "emptyNameButtonForm =
     Element ''form'' []
       [Element ''input'' [(''type'', ''text''), (''name'', ''q''), (''value'', ''x'')] [],
        Element ''input'' [(''type'', ''submit''), (''name'', ''''), (''value'', ''go'')] []]"

text \<open>A text field and a submit control that both have the empty name.\<close>

definition emptyNameFieldForm :: node where
  "emptyNameFieldForm =
     Element ''form'' []
       [Element ''input'' [(''type'', ''text''), (''name'', ''''), (''value'', ''x'')] [],
        Element ''input'' [(''type'', ''submit''), (''name'', ''''), (''value'', ''go'')] []]"

text \<open>A text field and two submit controls that share the name \<^verbatim>\<open>go\<close>, in a multipart form.\<close>

definition sharedNameForm :: node where
  "sharedNameForm =
     Element ''form'' [(''method'', ''post''), (''enctype'', ''multipart/form-data'')]
       [Element ''input'' [(''type'', ''text''), (''name'', ''go''), (''value'', ''x'')] [],
        Element ''input'' [(''type'', ''submit''), (''name'', ''go''), (''value'', ''y'')] [],
        Element ''input'' [(''type'', ''submit''), (''name'', ''go''), (''value'', ''z'')] []]"

text \<open>An input and a button that carry a name and a value but no \<^verbatim>\<open>type\<close> attribute.\<close>

definition untypedInputForm :: node where
  "untypedInputForm =
     Element ''form'' []
       [Element ''input'' [(''name'', ''q''), (''value'', ''x'')] []]"

definition untypedButtonForm :: node where
  "untypedButtonForm =
     Element ''form'' []
       [Element ''button'' [(''name'', ''go''), (''value'', ''1'')] [TextNode ''Go'']]"

text \<open>A checkbox that is not checked: its name is defined and has no value.\<close>

definition uncheckedForm :: node where
  "uncheckedForm =
     Element ''form'' []
       [Element ''input'' [(''type'', ''checkbox''), (''name'', ''news''), (''value'', ''yes'')] []]"

text \<open>Every list stored in a value map has an element: what \<^verbatim>\<open>Add\<close> alone produces.\<close>

definition nonempty_lists :: "Values \<Rightarrow> bool" where
  "nonempty_lists m \<longleftrightarrow> (\<forall>k. m k \<noteq> Some [])"

section \<open>What one element contributes: the extraction read per name\<close>

text \<open>\<open>appended x vs\<close> is the entry of a name after \<^verbatim>\<open>Add\<close> has been called for it with each
  element of \<open>vs\<close> in turn, starting from the entry \<open>x\<close>.\<close>

definition appended :: "string list option \<Rightarrow> string list \<Rightarrow> string list option" where
  "appended x vs = (if vs = [] then x else Some ((case x of None \<Rightarrow> [] | Some xs \<Rightarrow> xs) @ vs))"

text \<open>The values that the callback of \<^verbatim>\<open>input.Each\<close> adds for the name \<open>n\<close> at the element
  \<open>e\<close>, to the fields and to the buttons.\<close>

definition input_values :: "string \<Rightarrow> node \<Rightarrow> string list" where
  "input_values n e =
     (if Attr e ''name'' = Some n then
        (case Attr e ''type'' of
           None \<Rightarrow> []
         | Some typ \<Rightarrow>
             if typ = ''submit'' then []
             else if typ = ''radio'' \<or> typ = ''checkbox'' then
               (case Attr e ''checked'' of
                  None \<Rightarrow> []
                | Some c \<Rightarrow> (case Attr e ''value'' of None \<Rightarrow> [] | Some v \<Rightarrow> [v]))
             else (case Attr e ''value'' of None \<Rightarrow> [] | Some v \<Rightarrow> [v]))
      else [])"

definition button_values :: "string \<Rightarrow> node \<Rightarrow> string list" where
  "button_values n e =
     (if Attr e ''name'' = Some n \<and> Attr e ''type'' = Some ''submit''
      then [case Attr e ''value'' of Some v \<Rightarrow> v | None \<Rightarrow> '''']
      else [])"

text \<open>The element marks its name as a defined field in the callback of \<^verbatim>\<open>input.Each\<close>.\<close>

definition input_marks :: "string \<Rightarrow> node \<Rightarrow> bool" where
  "input_marks n e \<longleftrightarrow>
     Attr e ''name'' = Some n \<and> (\<exists>typ. Attr e ''type'' = Some typ \<and> typ \<noteq> ''submit'')"

text \<open>The spec's rule for radio buttons and checkboxes, over a list of such controls in
  document order: the \<^verbatim>\<open>value\<close> of each one that has both a \<^verbatim>\<open>checked\<close> and a \<^verbatim>\<open>value\<close>
  attribute.\<close>

definition checked_values :: "node list \<Rightarrow> string list" where
  "checked_values es =
     concat (map (\<lambda>e. case Attr e ''checked'' of
                         None \<Rightarrow> []
                       | Some c \<Rightarrow> (case Attr e ''value'' of None \<Rightarrow> [] | Some v \<Rightarrow> [v])) es)"

text \<open>The invariant of the field store: a name with an entry in the values is defined.\<close>

definition names_defined :: "(string \<rightharpoonup> bool) \<Rightarrow> Values \<Rightarrow> bool" where
  "names_defined d f \<longleftrightarrow> (\<forall>n. f n \<noteq> None \<longrightarrow> index_bool d n)"

section \<open>Evaluating the extraction on the test forms\<close>

lemmas each_defs = input_each_def select_each_def textarea_each_def option_each_def
lemmas find_defs = Find_def Find_option_selected_def
lemmas val_defs = Values_Add_def Values_Set_def Values_Del_def Values_Get_def index_bool_def

lemma ToUpper_post: "ToUpper ''post'' = ''POST''"
  by code_simp

lemma htmlForm2_defined:
  "index_bool (definedFields (NewForm b htmlForm2)) name \<longleftrightarrow>
     name \<in> {''will_be_deleted'', ''company'', ''age'', ''gender'', ''music'', ''city'', ''hobby''}"
  by (simp add: NewForm_def serializeForm_def htmlForm2_def find_defs each_defs val_defs
      split: prod.splits)

lemma htmlForm2_fields:
  "fields_map (NewForm b htmlForm2) =
     [''will_be_deleted'' \<mapsto> [''aaa''], ''company'' \<mapsto> [''none''], ''age'' \<mapsto> [''55''],
      ''gender'' \<mapsto> [''male''], ''music'' \<mapsto> [''jazz'', ''fusion''], ''city'' \<mapsto> [''NY''],
      ''hobby'' \<mapsto> [''Dance'']]"
  by (simp add: NewForm_def serializeForm_def htmlForm2_def find_defs each_defs val_defs
      split: prod.splits)

lemma htmlForm2_buttons:
  "buttons (NewForm b htmlForm2) = [''submit2'' \<mapsto> [''submitted2'']]"
  by (simp add: NewForm_def serializeForm_def htmlForm2_def find_defs each_defs val_defs
      split: prod.splits)

section \<open>The field store: \<open>Input\<close>, \<open>DeleteField\<close> and the unknown-name errors\<close>

text \<open>
  C7. For a name in DefinedFields and any string \<open>v\<close>, \<open>Input\<close> returns no error, the
  value list of the name becomes the single value \<open>v\<close> (every other entry is kept), and
  \<open>Field\<close> on the form after the call returns \<open>(v, true)\<close>. For a name not in
  DefinedFields, \<open>Input\<close> returns the unknown-field error.
\<close>

theorem Input_then_Field:
  "(index_bool (definedFields f) name \<longrightarrow>
      snd (Input f name v) = None \<and>
      fields_map (fst (Input f name v)) = (fields_map f)(name \<mapsto> [v]) \<and>
      Field (fst (Input f name v)) name = (v, True)) \<and>
   (\<not> index_bool (definedFields f) name \<longrightarrow>
      snd (Input f name v) = Some (NewElementNotFound name))"
  by (simp add: Input_def Field_def Values_Set_def Values_Get_def)

theorem Input_then_Field_witness:
  "index_bool (definedFields (NewForm test_bow htmlForm2)) ''age'' \<and>
   snd (Input (NewForm test_bow htmlForm2) ''age'' ''54'') = None \<and>
   Field (fst (Input (NewForm test_bow htmlForm2) ''age'' ''54'')) ''age'' = (''54'', True) \<and>
   \<not> index_bool (definedFields (NewForm test_bow htmlForm2)) ''agee'' \<and>
   snd (Input (NewForm test_bow htmlForm2) ''agee'' ''54'') = Some (NewElementNotFound ''agee'')"
  using Input_then_Field [of "NewForm test_bow htmlForm2" "''age''" "''54''"]
    Input_then_Field [of "NewForm test_bow htmlForm2" "''agee''" "''54''"]
  by (simp add: htmlForm2_defined)

text \<open>
  C8. For a name in DefinedFields, \<open>DeleteField\<close> returns no error and removes the
  name's entry from FieldSet; DefinedFields is the same map as before, so \<open>Field\<close>
  returns the empty string with \<open>true\<close> and a later \<open>Input\<close> on the name returns no error.
  For a name not in DefinedFields, \<open>DeleteField\<close> returns the unknown-field error.
\<close>

theorem DeleteField_keeps_defined:
  "(index_bool (definedFields f) name \<longrightarrow>
      snd (DeleteField f name) = None \<and>
      fields_map (fst (DeleteField f name)) = (fields_map f)(name := None) \<and>
      definedFields (fst (DeleteField f name)) = definedFields f \<and>
      Field (fst (DeleteField f name)) name = ('''', True) \<and>
      snd (Input (fst (DeleteField f name)) name v2) = None) \<and>
   (\<not> index_bool (definedFields f) name \<longrightarrow>
      snd (DeleteField f name) = Some (NewElementNotFound name))"
  by (simp add: DeleteField_def Input_def Field_def Values_Del_def Values_Get_def)

theorem DeleteField_keeps_defined_witness:
  "index_bool (definedFields (NewForm test_bow htmlForm2)) ''will_be_deleted'' \<and>
   fields_map (NewForm test_bow htmlForm2) ''will_be_deleted'' = Some [''aaa''] \<and>
   snd (DeleteField (NewForm test_bow htmlForm2) ''will_be_deleted'') = None \<and>
   Field (fst (DeleteField (NewForm test_bow htmlForm2) ''will_be_deleted'')) ''will_be_deleted''
     = ('''', True) \<and>
   snd (Input (fst (DeleteField (NewForm test_bow htmlForm2) ''will_be_deleted''))
          ''will_be_deleted'' ''bbb'') = None \<and>
   \<not> index_bool (definedFields (NewForm test_bow htmlForm2)) ''submit2'' \<and>
   snd (DeleteField (NewForm test_bow htmlForm2) ''submit2'') = Some (NewElementNotFound ''submit2'')"
  using DeleteField_keeps_defined [of "NewForm test_bow htmlForm2" "''will_be_deleted''" "''bbb''"]
    DeleteField_keeps_defined [of "NewForm test_bow htmlForm2" "''submit2''" "''bbb''"]
  by (simp add: htmlForm2_defined htmlForm2_fields)

text \<open>
  C9. For a name not in DefinedFields, \<open>Input\<close>, \<open>InputSlice\<close>, \<open>CheckBox\<close> and
  \<open>DeleteField\<close> return the form as it was (so DefinedFields, FieldSet and ButtonSet
  are unchanged) with an error whose message holds the name. For a name that is not a
  key of ButtonSet, \<open>Click\<close> makes no transport call and returns an error whose message
  holds the name; \<open>Click\<close> and \<open>send\<close> never assign to the form, so it is unchanged.
\<close>

theorem unknown_name_fails_without_change:
  "(\<not> index_bool (definedFields f) name \<longrightarrow>
      Input f name v = (f, Some (ElementNotFound
         (''No input found with name '' @ [CHR 0x27] @ name @ [CHR 0x27] @ ''.''))) \<and>
      InputSlice f name vs = (f, Some (ElementNotFound
         (''No input found with name '' @ [CHR 0x27] @ name @ [CHR 0x27] @ ''.''))) \<and>
      CheckBox f name vs = (f, Some (ElementNotFound
         (''No input found with name '' @ [CHR 0x27] @ name @ [CHR 0x27] @ ''.''))) \<and>
      DeleteField f name = (f, Some (ElementNotFound
         (''No input found with name '' @ [CHR 0x27] @ name @ [CHR 0x27] @ ''.'')))) \<and>
   (buttons f name = None \<longrightarrow>
      Click f name = ([], Some (InvalidFormValue
         (''Form does not contain a button with the name '' @ [CHR 0x27] @ name @ [CHR 0x27] @ ''.''))))"
  by (simp add: Input_def InputSlice_def CheckBox_def DeleteField_def Click_def
      NewElementNotFound_def NewInvalidFormValue_def)

theorem unknown_name_fails_without_change_witness:
  "\<not> index_bool (definedFields (NewForm test_bow htmlForm2)) ''music2'' \<and>
   CheckBox (NewForm test_bow htmlForm2) ''music2'' [''rock'', ''fusion'']
     = (NewForm test_bow htmlForm2, Some (ElementNotFound ''No input found with name 'music2'.'')) \<and>
   buttons (NewForm test_bow htmlForm2) ''nonexistent'' = None \<and>
   Click (NewForm test_bow htmlForm2) ''nonexistent''
     = ([], Some (InvalidFormValue ''Form does not contain a button with the name 'nonexistent'.''))"
  using unknown_name_fails_without_change
    [of "NewForm test_bow htmlForm2" "''music2''" "''x''" "[''rock'', ''fusion'']"]
    unknown_name_fails_without_change
    [of "NewForm test_bow htmlForm2" "''nonexistent''" "''x''" "[]"]
  by (simp add: htmlForm2_defined htmlForm2_buttons)

section \<open>Submission: the dispatch rule and the button pair\<close>

lemma send_failed: "send_target f = Inl err \<Longrightarrow> send f bn bv = ([], Some err)"
  by (simp add: send_def)

lemma send_dispatched:
  "send_target f = Inr aurl \<Longrightarrow>
   send f bn bv =
     (let values = (if bn \<noteq> '''' then Values_Set (fields_map f) bn bv else fields_map f);
          c = (if ToUpper (case Attr (selection f) ''method'' of Some m \<Rightarrow> m | None \<Rightarrow> ''GET'') = ''GET''
               then OpenForm aurl values
               else if Attr (selection f) ''enctype'' = Some ''multipart/form-data''
               then PostMultipart aurl values
               else PostForm aurl values)
      in ([c], transport (bow f) c))"
  by (auto simp add: send_def Let_def split: option.splits)

lemma send_cases:
  assumes "fst (send f bn bv) \<noteq> []"
  shows "\<exists>aurl values.
           fst (send f bn bv) =
             [if ToUpper (case Attr (selection f) ''method'' of Some m \<Rightarrow> m | None \<Rightarrow> ''GET'') = ''GET''
              then OpenForm aurl values
              else if Attr (selection f) ''enctype'' = Some ''multipart/form-data''
              then PostMultipart aurl values
              else PostForm aurl values] \<and>
           snd (send f bn bv) = transport (bow f) (hd (fst (send f bn bv))) \<and>
           send_target f = Inr aurl \<and>
           (values = fields_map f \<or> values = Values_Set (fields_map f) bn bv)"
proof (cases "send_target f")
  case (Inl err)
  with assms show ?thesis by (simp add: send_failed)
next
  case (Inr aurl)
  show ?thesis
    by (rule exI [of _ aurl],
        rule exI [of _ "if bn \<noteq> '''' then Values_Set (fields_map f) bn bv else fields_map f"])
       (simp add: send_dispatched [OF Inr] Inr Let_def)
qed

lemma Click_cases:
  assumes "fst (Click f button) \<noteq> []"
  shows "\<exists>v. Click f button = send f button v"
  using assms by (auto simp add: Click_def split: option.splits list.splits)

text \<open>
  C1. Whenever \<open>Click\<close> or \<open>Submit\<close> makes a transport call, it makes exactly one, and
  which one is fixed by two attributes of the form element: \<^verbatim>\<open>OpenForm\<close> when the
  \<^verbatim>\<open>method\<close> attribute (\<^verbatim>\<open>GET\<close> when absent) is \<^verbatim>\<open>GET\<close> after upper-casing; else
  \<^verbatim>\<open>PostMultipart\<close> when the \<^verbatim>\<open>enctype\<close> attribute is \<^verbatim>\<open>multipart/form-data\<close>; else
  \<^verbatim>\<open>PostForm\<close>. The call receives the resolved action URL and the values, which are
  FieldSet with at most a button pair set in it; the values play no part in the choice.
  The error returned is the one of the transport call.
\<close>

theorem dispatch_rule:
  assumes "r = Click f button \<or> Submit f r" and "fst r \<noteq> []"
  shows "\<exists>aurl values.
           fst r =
             [if ToUpper (case Attr (selection f) ''method'' of Some m \<Rightarrow> m | None \<Rightarrow> ''GET'') = ''GET''
              then OpenForm aurl values
              else if Attr (selection f) ''enctype'' = Some ''multipart/form-data''
              then PostMultipart aurl values
              else PostForm aurl values] \<and>
           snd r = transport (bow f) (hd (fst r)) \<and>
           send_target f = Inr aurl \<and>
           (values = fields_map f \<or> (\<exists>b v. values = Values_Set (fields_map f) b v))"
proof -
  from assms(1) have "\<exists>bn bv. r = send f bn bv"
  proof
    assume "r = Click f button"
    with assms(2) Click_cases [of f button] show ?thesis by auto
  next
    assume "Submit f r"
    then show ?thesis
    proof cases
      case (Submit_click name)
      with assms(2) Click_cases [of f name] show ?thesis by auto
    next
      case Submit_plain
      then show ?thesis by blast
    qed
  qed
  then obtain bn bv where r: "r = send f bn bv" by blast
  from send_cases [of f bn bv] assms(2) r show ?thesis by blast
qed

lemma htmlForm2_target: "send_target (NewForm test_bow htmlForm2) = Inr ''http://127.0.0.1/''"
  by (simp add: send_target_def NewForm_def formAttributes_def htmlForm2_def test_bow_def
      split: prod.splits)

lemma htmlForm2_Click:
  "Click (NewForm test_bow htmlForm2) ''submit2'' =
     ([PostForm ''http://127.0.0.1/'' (Values_Set (fields_map (NewForm test_bow htmlForm2)) ''submit2'' ''submitted2'')], None)"
  apply (simp add: Click_def htmlForm2_buttons send_dispatched [OF htmlForm2_target] Let_def)
  apply (simp add: NewForm_def htmlForm2_def ToUpper_post test_bow_def split: prod.splits)
  done

theorem dispatch_rule_witness:
  "fst (Click (NewForm test_bow htmlForm2) ''submit2'') \<noteq> [] \<and>
   (\<exists>aurl values. fst (Click (NewForm test_bow htmlForm2) ''submit2'') = [PostForm aurl values])"
  using dispatch_rule [of "Click (NewForm test_bow htmlForm2) ''submit2''"
      "NewForm test_bow htmlForm2" "''submit2''"]
  by (simp add: htmlForm2_Click)

lemma send_target_fields_map: "send_target (f\<lparr>fields_map := x\<rparr>) = send_target f"
  by (simp add: send_target_def split: sum.splits option.splits)

lemma apply_op_keeps:
  "buttons (fst (apply_op op f)) = buttons f \<and>
   definedFields (fst (apply_op op f)) = definedFields f \<and>
   send_target (fst (apply_op op f)) = send_target f \<and>
   bow (fst (apply_op op f)) = bow f \<and>
   selection (fst (apply_op op f)) = selection f"
  by (cases op)
    (simp_all add: Input_def InputSlice_def CheckBox_def DeleteField_def send_target_fields_map)

lemma run_ops_keeps:
  "buttons (run_ops ops f) = buttons f \<and> definedFields (run_ops ops f) = definedFields f \<and>
   send_target (run_ops ops f) = send_target f \<and> bow (run_ops ops f) = bow f \<and>
   selection (run_ops ops f) = selection f"
  unfolding run_ops_def
  by (induction ops arbitrary: f) (simp_all add: apply_op_keeps)

lemma Values_Add_nonempty: "nonempty_lists m \<Longrightarrow> nonempty_lists (Values_Add m k v)"
  by (simp add: nonempty_lists_def Values_Add_def)

lemma input_each_buttons_nonempty:
  "nonempty_lists (snd (snd st)) \<Longrightarrow> nonempty_lists (snd (snd (input_each s st)))"
  by (cases st) (simp add: input_each_def Values_Add_nonempty split: option.splits)

lemma fold_input_each_buttons_nonempty:
  "nonempty_lists (snd (snd st)) \<Longrightarrow> nonempty_lists (snd (snd (fold input_each es st)))"
  by (induction es arbitrary: st) (simp_all add: input_each_buttons_nonempty)

lemma select_each_buttons: "snd (snd (select_each s st)) = snd (snd st)"
  by (cases st) (simp add: select_each_def split: option.splits)

lemma textarea_each_buttons: "snd (snd (textarea_each s st)) = snd (snd st)"
  by (cases st) (simp add: textarea_each_def split: option.splits)

lemma fold_select_each_buttons: "snd (snd (fold select_each es st)) = snd (snd st)"
  by (induction es arbitrary: st) (simp_all add: select_each_buttons)

lemma fold_textarea_each_buttons: "snd (snd (fold textarea_each es st)) = snd (snd st)"
  by (induction es arbitrary: st) (simp_all add: textarea_each_buttons)

lemma serializeForm_buttons:
  "snd (snd (serializeForm sel)) =
     snd (snd (fold input_each (Find sel [''input'', ''button'']) (Map.empty, Map.empty, Map.empty)))"
  by (simp add: serializeForm_def fold_select_each_buttons fold_textarea_each_buttons)

lemma NewForm_parts:
  "definedFields (NewForm b sel) = fst (serializeForm sel)"
  "fields_map (NewForm b sel) = fst (snd (serializeForm sel))"
  "buttons (NewForm b sel) = snd (snd (serializeForm sel))"
  "selection (NewForm b sel) = sel"
  "bow (NewForm b sel) = b"
  by (simp_all add: NewForm_def split: prod.splits)

lemma NewForm_buttons_nonempty: "nonempty_lists (buttons (NewForm b sel))"
  unfolding NewForm_parts serializeForm_buttons
  by (rule fold_input_each_buttons_nonempty) (simp add: nonempty_lists_def)

text \<open>
  C2 (amended). On a form made by \<open>NewForm\<close> and changed by any sequence of field
  operations: if \<open>name\<close> is not a key of ButtonSet, \<open>Click\<close> makes no call and returns
  the invalid-form-value error for \<open>name\<close>. If it is a key, its list of values is not
  empty and, with \<open>v\<close> the first of them: when the action URL does not parse, that error
  is returned and no call is made; when it parses, \<open>Click\<close> makes one transport call
  and returns its result, and the values of the call are FieldSet with \<open>name\<close> mapped
  to the single value \<open>v\<close> when \<open>name\<close> is not the empty string, and FieldSet as it
  is when \<open>name\<close> is the empty string (\<open>send\<close> reads the empty name as "no button").
\<close>

theorem Click_merges_button:
  assumes f: "f = run_ops ops (NewForm b sel)"
  shows "(buttons f name = None \<longrightarrow> Click f name = ([], Some (NewInvalidFormValue name))) \<and>
         (\<forall>vs. buttons f name = Some vs \<longrightarrow>
            (\<exists>v rest. vs = v # rest \<and>
               (\<forall>err. send_target f = Inl err \<longrightarrow> Click f name = ([], Some err)) \<and>
               (\<forall>aurl. send_target f = Inr aurl \<longrightarrow>
                  (\<exists>c values. Click f name = ([c], transport (bow f) c) \<and>
                     c \<in> {OpenForm aurl values, PostForm aurl values, PostMultipart aurl values} \<and>
                     values = (if name \<noteq> '''' then (fields_map f)(name \<mapsto> [v]) else fields_map f)))))"
proof (intro conjI impI allI)
  assume "buttons f name = None"
  then show "Click f name = ([], Some (NewInvalidFormValue name))"
    by (simp add: Click_def)
next
  fix vs
  assume vs: "buttons f name = Some vs"
  have "nonempty_lists (buttons f)"
    using NewForm_buttons_nonempty [of b sel] by (simp add: f run_ops_keeps)
  with vs have "vs \<noteq> []"
    by (auto simp add: nonempty_lists_def)
  then obtain v rest where vrest: "vs = v # rest"
    by (cases vs) auto
  have click: "Click f name = send f name v"
    by (simp add: Click_def vs vrest)
  have fail: "\<forall>err. send_target f = Inl err \<longrightarrow> Click f name = ([], Some err)"
    by (simp add: click send_failed)
  have ok: "\<forall>aurl. send_target f = Inr aurl \<longrightarrow>
                  (\<exists>c values. Click f name = ([c], transport (bow f) c) \<and>
                     c \<in> {OpenForm aurl values, PostForm aurl values, PostMultipart aurl values} \<and>
                     values = (if name \<noteq> '''' then (fields_map f)(name \<mapsto> [v]) else fields_map f))"
    by (simp add: click send_dispatched Let_def Values_Set_def)
  from vrest fail ok
  show "\<exists>v rest. vs = v # rest \<and>
               (\<forall>err. send_target f = Inl err \<longrightarrow> Click f name = ([], Some err)) \<and>
               (\<forall>aurl. send_target f = Inr aurl \<longrightarrow>
                  (\<exists>c values. Click f name = ([c], transport (bow f) c) \<and>
                     c \<in> {OpenForm aurl values, PostForm aurl values, PostMultipart aurl values} \<and>
                     values = (if name \<noteq> '''' then (fields_map f)(name \<mapsto> [v]) else fields_map f)))"
    by blast
qed

lemma htmlForm_buttons:
  "buttons (NewForm b htmlForm) =
     [''submit1'' \<mapsto> [''submitted1''], ''submit2'' \<mapsto> [''submitted2'']]"
  by (simp add: NewForm_def serializeForm_def htmlForm_def find_defs each_defs val_defs
      split: prod.splits)

lemma htmlForm_target: "send_target (NewForm test_bow htmlForm) = Inr ''http://127.0.0.1/''"
  by (simp add: send_target_def NewForm_def formAttributes_def htmlForm_def test_bow_def
      split: prod.splits)

lemma test_bow_transport: "transport test_bow c = None"
  by (simp add: test_bow_def)

theorem Click_merges_button_witness:
  "buttons (run_ops [OpInput ''age'' ''55'', OpInput ''gender'' ''male''] (NewForm test_bow htmlForm))
     ''submit2'' = Some [''submitted2''] \<and>
   send_target (run_ops [OpInput ''age'' ''55'', OpInput ''gender'' ''male''] (NewForm test_bow htmlForm))
     = Inr ''http://127.0.0.1/'' \<and>
   (\<exists>c values.
      Click (run_ops [OpInput ''age'' ''55'', OpInput ''gender'' ''male''] (NewForm test_bow htmlForm))
        ''submit2'' = ([c], None) \<and>
      c \<in> {OpenForm ''http://127.0.0.1/'' values, PostForm ''http://127.0.0.1/'' values,
           PostMultipart ''http://127.0.0.1/'' values} \<and>
      values ''submit2'' = Some [''submitted2''] \<and>
      values ''submit1'' =
        fields_map (run_ops [OpInput ''age'' ''55'', OpInput ''gender'' ''male''] (NewForm test_bow htmlForm))
          ''submit1'')"
proof -
  let ?F = "run_ops [OpInput ''age'' ''55'', OpInput ''gender'' ''male''] (NewForm test_bow htmlForm)"
  have b: "buttons ?F ''submit2'' = Some [''submitted2'']"
    by (simp add: run_ops_keeps htmlForm_buttons)
  have t: "send_target ?F = Inr ''http://127.0.0.1/''"
    by (simp add: run_ops_keeps htmlForm_target)
  have n: "\<And>c. transport (bow ?F) c = None"
    by (simp add: run_ops_keeps NewForm_parts test_bow_transport)
  from Click_merges_button
    [of ?F "[OpInput ''age'' ''55'', OpInput ''gender'' ''male'']" test_bow htmlForm "''submit2''",
     OF refl]
  have "\<exists>v rest. [''submitted2''] = v # rest \<and>
          (\<forall>aurl. send_target ?F = Inr aurl \<longrightarrow>
             (\<exists>c values. Click ?F ''submit2'' = ([c], transport (bow ?F) c) \<and>
                c \<in> {OpenForm aurl values, PostForm aurl values, PostMultipart aurl values} \<and>
                values = (if ''submit2'' \<noteq> '''' then (fields_map ?F)(''submit2'' \<mapsto> [v])
                          else fields_map ?F)))"
    using b by blast
  then obtain c vals where
    cv: "Click ?F ''submit2'' = ([c], transport (bow ?F) c)"
    "c \<in> {OpenForm ''http://127.0.0.1/'' vals, PostForm ''http://127.0.0.1/'' vals,
           PostMultipart ''http://127.0.0.1/'' vals}"
    "vals = (fields_map ?F)(''submit2'' \<mapsto> [''submitted2''])"
    using t by auto
  then have "Click ?F ''submit2'' = ([c], None) \<and>
      c \<in> {OpenForm ''http://127.0.0.1/'' vals, PostForm ''http://127.0.0.1/'' vals,
           PostMultipart ''http://127.0.0.1/'' vals} \<and>
      vals ''submit2'' = Some [''submitted2''] \<and>
      vals ''submit1'' = fields_map ?F ''submit1''"
    by (simp add: n)
  then have "\<exists>c values. Click ?F ''submit2'' = ([c], None) \<and>
      c \<in> {OpenForm ''http://127.0.0.1/'' values, PostForm ''http://127.0.0.1/'' values,
           PostMultipart ''http://127.0.0.1/'' values} \<and>
      values ''submit2'' = Some [''submitted2''] \<and>
      values ''submit1'' = fields_map ?F ''submit1''"
    by (intro exI [of _ c] exI [of _ vals])
  with b t show ?thesis by (intro conjI)
qed

lemma emptyNameButtonForm_eval:
  "buttons (NewForm b emptyNameButtonForm) = ['''' \<mapsto> [''go'']]"
  "fields_map (NewForm b emptyNameButtonForm) = [''q'' \<mapsto> [''x'']]"
  "send_target (NewForm test_bow emptyNameButtonForm) = Inr ''http://127.0.0.1/''"
  by (simp_all add: NewForm_def serializeForm_def emptyNameButtonForm_def find_defs each_defs val_defs
      send_target_def formAttributes_def test_bow_def split: prod.splits)

lemma ToUpper_GET: "ToUpper ''GET'' = ''GET''"
  by code_simp

text \<open>
  The claim C2 as stated fails for a submit control with an empty name: the name is a key
  of ButtonSet, and the values sent by \<open>Click\<close> hold no pair for it.
\<close>

theorem Click_empty_name_counterexample:
  "buttons (NewForm test_bow emptyNameButtonForm) '''' = Some [''go''] \<and>
   Click (NewForm test_bow emptyNameButtonForm) '''' =
     ([OpenForm ''http://127.0.0.1/'' [''q'' \<mapsto> [''x'']]], None) \<and>
   [''q'' \<mapsto> [''x'']] '''' \<noteq> Some [''go'']"
  by (simp add: Click_def emptyNameButtonForm_eval send_dispatched Let_def
      NewForm_parts(4,5) test_bow_transport)
    (simp add: emptyNameButtonForm_def ToUpper_GET)

text \<open>
  C10 (amended). For a button name \<open>b\<close> that is not the empty string, is a key of
  ButtonSet with first value \<open>v\<close>, and is a defined field with one or more values in
  FieldSet: when the action URL parses, the values that \<open>Click\<close> sends map \<open>b\<close> to the
  single value \<open>v\<close> (the field's own values for \<open>b\<close> are replaced, not kept beside
  it) and agree with FieldSet on every other name.
\<close>

theorem Click_button_replaces_field:
  assumes "buttons f b = Some (v # rest)" and "b \<noteq> ''''"
    and "index_bool (definedFields f) b" and "fields_map f b = Some xs" and "xs \<noteq> []"
    and "send_target f = Inr aurl"
  shows "\<exists>values. fst (Click f b) \<in> {[OpenForm aurl values], [PostForm aurl values],
                                      [PostMultipart aurl values]} \<and>
           values b = Some [v] \<and> (\<forall>k. k \<noteq> b \<longrightarrow> values k = fields_map f k)"
  using assms
  by (intro exI [of _ "(fields_map f)(b \<mapsto> [v])"])
     (simp add: Click_def send_dispatched Let_def Values_Set_def)

lemma sharedNameForm_eval:
  "buttons (NewForm b sharedNameForm) = [''go'' \<mapsto> [''y'', ''z'']]"
  "fields_map (NewForm b sharedNameForm) = [''go'' \<mapsto> [''x'']]"
  "index_bool (definedFields (NewForm b sharedNameForm)) ''go''"
  "send_target (NewForm test_bow sharedNameForm) = Inr ''http://127.0.0.1/''"
  by (simp_all add: NewForm_def serializeForm_def sharedNameForm_def find_defs each_defs val_defs
      send_target_def formAttributes_def test_bow_def split: prod.splits)

theorem Click_button_replaces_field_witness:
  "buttons (NewForm test_bow sharedNameForm) ''go'' = Some [''y'', ''z''] \<and>
   index_bool (definedFields (NewForm test_bow sharedNameForm)) ''go'' \<and>
   fields_map (NewForm test_bow sharedNameForm) ''go'' = Some [''x''] \<and>
   send_target (NewForm test_bow sharedNameForm) = Inr ''http://127.0.0.1/'' \<and>
   (\<exists>values. fst (Click (NewForm test_bow sharedNameForm) ''go'') \<in>
        {[OpenForm ''http://127.0.0.1/'' values], [PostForm ''http://127.0.0.1/'' values],
         [PostMultipart ''http://127.0.0.1/'' values]} \<and>
      values ''go'' = Some [''y''])"
proof -
  from Click_button_replaces_field
    [of "NewForm test_bow sharedNameForm" "''go''" "''y''" "[''z'']" "[''x'']" "''http://127.0.0.1/''"]
  obtain vals where
    "fst (Click (NewForm test_bow sharedNameForm) ''go'') \<in>
        {[OpenForm ''http://127.0.0.1/'' vals], [PostForm ''http://127.0.0.1/'' vals],
         [PostMultipart ''http://127.0.0.1/'' vals]} \<and>
    vals ''go'' = Some [''y'']"
    by (auto simp add: sharedNameForm_eval)
  then have "\<exists>values. fst (Click (NewForm test_bow sharedNameForm) ''go'') \<in>
        {[OpenForm ''http://127.0.0.1/'' values], [PostForm ''http://127.0.0.1/'' values],
         [PostMultipart ''http://127.0.0.1/'' values]} \<and>
      values ''go'' = Some [''y'']"
    by (intro exI [of _ vals])
  then show ?thesis
    by (simp add: sharedNameForm_eval)
qed

lemma emptyNameFieldForm_eval:
  "buttons (NewForm b emptyNameFieldForm) = ['''' \<mapsto> [''go'']]"
  "fields_map (NewForm b emptyNameFieldForm) = ['''' \<mapsto> [''x'']]"
  "index_bool (definedFields (NewForm b emptyNameFieldForm)) ''''"
  "send_target (NewForm test_bow emptyNameFieldForm) = Inr ''http://127.0.0.1/''"
  by (simp_all add: NewForm_def serializeForm_def emptyNameFieldForm_def find_defs each_defs val_defs
      send_target_def formAttributes_def test_bow_def split: prod.splits)

text \<open>
  The claim C10 as stated fails when the shared name is the empty string: the values
  sent by \<open>Click\<close> keep the field's value for that name and not the button's.
\<close>

theorem Click_empty_name_keeps_field_counterexample:
  "buttons (NewForm test_bow emptyNameFieldForm) '''' = Some [''go''] \<and>
   index_bool (definedFields (NewForm test_bow emptyNameFieldForm)) '''' \<and>
   fields_map (NewForm test_bow emptyNameFieldForm) '''' = Some [''x''] \<and>
   Click (NewForm test_bow emptyNameFieldForm) '''' =
     ([OpenForm ''http://127.0.0.1/'' ['''' \<mapsto> [''x'']]], None) \<and>
   ['''' \<mapsto> [''x'']] '''' \<noteq> Some [''go'']"
  by (simp add: Click_def emptyNameFieldForm_eval send_dispatched Let_def
      NewForm_parts(4,5) test_bow_transport)
    (simp add: emptyNameFieldForm_def ToUpper_GET)

section \<open>Extraction, one name at a time\<close>

lemma appended_Nil: "appended x [] = x"
  by (simp add: appended_def)

lemma appended_appended: "appended (appended x xs) ys = appended x (xs @ ys)"
  by (simp add: appended_def)

lemma appended_Some: "appended (Some xs) ys = Some (xs @ ys)"
  by (simp add: appended_def)

lemma Values_Add_apply:
  "Values_Add f k v n = (if n = k then appended (f k) [v] else f n)"
  by (simp add: Values_Add_def appended_def)

lemma input_each_fields:
  "fst (snd (input_each e st)) n = appended (fst (snd st) n) (input_values n e)"
  by (cases st)
    (simp add: input_each_def input_values_def Values_Add_apply appended_Nil
      split: option.splits)

lemma input_each_buttons:
  "snd (snd (input_each e st)) n = appended (snd (snd st) n) (button_values n e)"
  by (cases st)
    (simp add: input_each_def button_values_def Values_Add_apply appended_Nil
      split: option.splits)

lemma input_each_defined:
  "index_bool (fst (input_each e st)) n \<longleftrightarrow> index_bool (fst st) n \<or> input_marks n e"
  by (cases st)
    (auto simp add: input_each_def input_marks_def index_bool_def split: option.splits)

lemma fold_input_each_fields:
  "fst (snd (fold input_each es st)) n
     = appended (fst (snd st) n) (concat (map (input_values n) es))"
  by (induction es arbitrary: st)
    (simp_all add: appended_Nil input_each_fields appended_appended)

lemma fold_input_each_buttons:
  "snd (snd (fold input_each es st)) n
     = appended (snd (snd st) n) (concat (map (button_values n) es))"
  by (induction es arbitrary: st)
    (simp_all add: appended_Nil input_each_buttons appended_appended)

lemma fold_input_each_defined:
  "index_bool (fst (fold input_each es st)) n
     \<longleftrightarrow> index_bool (fst st) n \<or> (\<exists>e \<in> set es. input_marks n e)"
  by (induction es arbitrary: st) (auto simp add: input_each_defined)

text \<open>The passes over the selects and the textareas: a name is marked when an element
  carries it, an entry only grows at its end, and the entry of a name that no element
  carries is untouched.\<close>

lemma fold_option_each_other: "k \<noteq> n \<Longrightarrow> fold (option_each k) os f n = f n"
  by (induction os arbitrary: f) (simp_all add: option_each_def Values_Add_apply split: option.splits)

lemma option_each_grows:
  assumes "f n = Some vs"
  shows "\<exists>ws. option_each k e f n = Some (vs @ ws)"
proof (cases "Attr e ''value''")
  case None
  with assms show ?thesis by (simp add: option_each_def)
next
  case (Some val)
  show ?thesis
  proof (cases "n = k")
    case True
    with assms Some show ?thesis
      by (simp add: option_each_def Values_Add_apply appended_Some)
  next
    case False
    with assms Some show ?thesis
      by (simp add: option_each_def Values_Add_apply)
  qed
qed

lemma fold_option_each_grows:
  "f n = Some vs \<Longrightarrow> \<exists>ws. fold (option_each k) os f n = Some (vs @ ws)"
proof (induction os arbitrary: f vs)
  case Nil
  then show ?case by simp
next
  case (Cons o1 os)
  from option_each_grows [of f n vs k o1] Cons.prems
  obtain ws1 where "option_each k o1 f n = Some (vs @ ws1)" by blast
  from Cons.IH [of "option_each k o1 f" "vs @ ws1"] this show ?case by auto
qed

lemma select_each_defined:
  "index_bool (fst (select_each e st)) n \<longleftrightarrow> index_bool (fst st) n \<or> Attr e ''name'' = Some n"
  by (cases st) (auto simp add: select_each_def index_bool_def split: option.splits)

lemma select_each_other:
  "Attr e ''name'' \<noteq> Some n \<Longrightarrow> fst (snd (select_each e st)) n = fst (snd st) n"
  by (cases st) (auto simp add: select_each_def fold_option_each_other split: option.splits)

lemma select_each_grows:
  assumes "fst (snd st) n = Some vs"
  shows "\<exists>ws. fst (snd (select_each e st)) n = Some (vs @ ws)"
proof (cases st)
  case (fields d f bs)
  with assms have f: "f n = Some vs" by simp
  show ?thesis
  proof (cases "Attr e ''name''")
    case None
    with fields f show ?thesis by (simp add: select_each_def)
  next
    case (Some k)
    from fold_option_each_grows [of f n vs k "Find_option_selected e"] f Some fields
    show ?thesis by (simp add: select_each_def)
  qed
qed

lemma textarea_each_defined:
  "index_bool (fst (textarea_each e st)) n \<longleftrightarrow> index_bool (fst st) n \<or> Attr e ''name'' = Some n"
  by (cases st) (auto simp add: textarea_each_def index_bool_def split: option.splits)

lemma textarea_each_other:
  "Attr e ''name'' \<noteq> Some n \<Longrightarrow> fst (snd (textarea_each e st)) n = fst (snd st) n"
  by (cases st) (auto simp add: textarea_each_def Values_Add_apply split: option.splits)

lemma textarea_each_grows:
  "fst (snd st) n = Some vs \<Longrightarrow> \<exists>ws. fst (snd (textarea_each e st)) n = Some (vs @ ws)"
  by (cases st)
    (auto simp add: textarea_each_def Values_Add_apply appended_Some split: option.splits)

lemma fold_select_each_defined:
  "index_bool (fst (fold select_each es st)) n
     \<longleftrightarrow> index_bool (fst st) n \<or> (\<exists>e \<in> set es. Attr e ''name'' = Some n)"
  by (induction es arbitrary: st) (auto simp add: select_each_defined)

lemma fold_textarea_each_defined:
  "index_bool (fst (fold textarea_each es st)) n
     \<longleftrightarrow> index_bool (fst st) n \<or> (\<exists>e \<in> set es. Attr e ''name'' = Some n)"
  by (induction es arbitrary: st) (auto simp add: textarea_each_defined)

lemma fold_select_each_other:
  "\<forall>e \<in> set es. Attr e ''name'' \<noteq> Some n \<Longrightarrow>
   fst (snd (fold select_each es st)) n = fst (snd st) n"
  by (induction es arbitrary: st) (simp_all add: select_each_other)

lemma fold_textarea_each_other:
  "\<forall>e \<in> set es. Attr e ''name'' \<noteq> Some n \<Longrightarrow>
   fst (snd (fold textarea_each es st)) n = fst (snd st) n"
  by (induction es arbitrary: st) (simp_all add: textarea_each_other)

lemma fold_select_each_grows:
  "fst (snd st) n = Some vs \<Longrightarrow> \<exists>ws. fst (snd (fold select_each es st)) n = Some (vs @ ws)"
proof (induction es arbitrary: st vs)
  case Nil
  then show ?case by simp
next
  case (Cons e es)
  from select_each_grows [of st n vs e] Cons.prems
  obtain ws1 where "fst (snd (select_each e st)) n = Some (vs @ ws1)" by blast
  from Cons.IH [of "select_each e st" "vs @ ws1"] this show ?case by auto
qed

lemma fold_textarea_each_grows:
  "fst (snd st) n = Some vs \<Longrightarrow> \<exists>ws. fst (snd (fold textarea_each es st)) n = Some (vs @ ws)"
proof (induction es arbitrary: st vs)
  case Nil
  then show ?case by simp
next
  case (Cons e es)
  from textarea_each_grows [of st n vs e] Cons.prems
  obtain ws1 where "fst (snd (textarea_each e st)) n = Some (vs @ ws1)" by blast
  from Cons.IH [of "textarea_each e st" "vs @ ws1"] this show ?case by auto
qed

text \<open>The three results of \<open>serializeForm\<close>.\<close>

lemma index_bool_empty: "\<not> index_bool Map.empty n"
  by (simp add: index_bool_def)

lemma serializeForm_defined:
  "index_bool (fst (serializeForm sel)) n \<longleftrightarrow>
     (\<exists>e \<in> set (Find sel [''input'', ''button'']). input_marks n e) \<or>
     (\<exists>e \<in> set (Find sel [''select'']). Attr e ''name'' = Some n) \<or>
     (\<exists>e \<in> set (Find sel [''textarea'']). Attr e ''name'' = Some n)"
  by (auto simp add: serializeForm_def fold_textarea_each_defined fold_select_each_defined
      fold_input_each_defined index_bool_empty)

lemma serializeForm_buttons_values:
  "snd (snd (serializeForm sel)) n
     = appended None (concat (map (button_values n) (Find sel [''input'', ''button''])))"
  by (simp add: serializeForm_buttons fold_input_each_buttons)

lemma serializeForm_fields_grows:
  assumes "appended None (concat (map (input_values n) (Find sel [''input'', ''button'']))) = Some vs"
  shows "\<exists>ws. fst (snd (serializeForm sel)) n = Some (vs @ ws)"
proof -
  let ?st1 = "fold input_each (Find sel [''input'', ''button'']) (Map.empty, Map.empty, Map.empty)"
  let ?st2 = "fold select_each (Find sel [''select'']) ?st1"
  from assms have "fst (snd ?st1) n = Some vs"
    by (simp add: fold_input_each_fields)
  from fold_select_each_grows [of ?st1 n vs "Find sel [''select'']"] this
  obtain ws1 where "fst (snd ?st2) n = Some (vs @ ws1)" by blast
  from fold_textarea_each_grows [of ?st2 n "vs @ ws1" "Find sel [''textarea'']"] this
  obtain ws2 where "fst (snd (fold textarea_each (Find sel [''textarea'']) ?st2)) n
      = Some ((vs @ ws1) @ ws2)" by blast
  then show ?thesis
    by (auto simp add: serializeForm_def)
qed

lemma serializeForm_fields_inputs_only:
  assumes "\<forall>e \<in> set (Find sel [''select'']). Attr e ''name'' \<noteq> Some n"
    and "\<forall>e \<in> set (Find sel [''textarea'']). Attr e ''name'' \<noteq> Some n"
  shows "fst (snd (serializeForm sel)) n
     = appended None (concat (map (input_values n) (Find sel [''input'', ''button''])))"
  using assms
  by (simp add: serializeForm_def fold_textarea_each_other fold_select_each_other
      fold_input_each_fields)

lemma appended_mem:
  "v \<in> set vs \<Longrightarrow> \<exists>ws. appended x vs = Some ws \<and> v \<in> set ws"
  by (auto simp add: appended_def)

lemma Find_mem:
  "e \<in> set (Find sel tags) \<longleftrightarrow> e \<in> set (descendants sel) \<and> (\<exists>t \<in> set tags. is_tag t e)"
  by (simp add: Find_def)

lemma is_tag_unique: "is_tag s e \<Longrightarrow> is_tag t e \<Longrightarrow> s = t"
  by (cases e) simp_all

text \<open>When every control that carries the name \<open>n\<close> satisfies \<open>P\<close>, the values added for
  \<open>n\<close> are those of the controls named \<open>n\<close>.\<close>

lemma input_values_named:
  "concat (map (input_values n) xs)
     = concat (map (input_values n) (filter (\<lambda>x. Attr x ''name'' = Some n) xs))"
  by (induction xs) (simp_all add: input_values_def)

section \<open>The invariant between FieldSet and DefinedFields\<close>

lemma input_values_marks: "input_values n e \<noteq> [] \<Longrightarrow> input_marks n e"
  by (auto simp add: input_values_def input_marks_def split: option.splits if_splits)

lemma appended_None_iff: "appended x vs = None \<longleftrightarrow> x = None \<and> vs = []"
  by (simp add: appended_def)

lemma input_each_names_defined:
  assumes "names_defined (fst st) (fst (snd st))"
  shows "names_defined (fst (input_each e st)) (fst (snd (input_each e st)))"
  unfolding names_defined_def
proof (intro allI impI)
  fix n
  assume "fst (snd (input_each e st)) n \<noteq> None"
  then have "fst (snd st) n \<noteq> None \<or> input_values n e \<noteq> []"
    by (simp add: input_each_fields appended_None_iff)
  with assms show "index_bool (fst (input_each e st)) n"
    by (auto simp add: input_each_defined names_defined_def dest: input_values_marks)
qed

lemma select_each_names_defined:
  assumes "names_defined (fst st) (fst (snd st))"
  shows "names_defined (fst (select_each e st)) (fst (snd (select_each e st)))"
  unfolding names_defined_def
proof (intro allI impI)
  fix n
  assume a: "fst (snd (select_each e st)) n \<noteq> None"
  show "index_bool (fst (select_each e st)) n"
  proof (cases "Attr e ''name'' = Some n")
    case True
    then show ?thesis by (simp add: select_each_defined)
  next
    case False
    with a have "fst (snd st) n \<noteq> None" by (simp add: select_each_other)
    with assms show ?thesis by (simp add: select_each_defined names_defined_def)
  qed
qed

lemma textarea_each_names_defined:
  assumes "names_defined (fst st) (fst (snd st))"
  shows "names_defined (fst (textarea_each e st)) (fst (snd (textarea_each e st)))"
  unfolding names_defined_def
proof (intro allI impI)
  fix n
  assume a: "fst (snd (textarea_each e st)) n \<noteq> None"
  show "index_bool (fst (textarea_each e st)) n"
  proof (cases "Attr e ''name'' = Some n")
    case True
    then show ?thesis by (simp add: textarea_each_defined)
  next
    case False
    with a have "fst (snd st) n \<noteq> None" by (simp add: textarea_each_other)
    with assms show ?thesis by (simp add: textarea_each_defined names_defined_def)
  qed
qed

lemma fold_input_each_names_defined:
  "names_defined (fst st) (fst (snd st)) \<Longrightarrow>
   names_defined (fst (fold input_each es st)) (fst (snd (fold input_each es st)))"
  by (induction es arbitrary: st) (simp_all add: input_each_names_defined)

lemma fold_select_each_names_defined:
  "names_defined (fst st) (fst (snd st)) \<Longrightarrow>
   names_defined (fst (fold select_each es st)) (fst (snd (fold select_each es st)))"
  by (induction es arbitrary: st) (simp_all add: select_each_names_defined)

lemma fold_textarea_each_names_defined:
  "names_defined (fst st) (fst (snd st)) \<Longrightarrow>
   names_defined (fst (fold textarea_each es st)) (fst (snd (fold textarea_each es st)))"
  by (induction es arbitrary: st) (simp_all add: textarea_each_names_defined)

lemma serializeForm_names_defined:
  "names_defined (fst (serializeForm sel)) (fst (snd (serializeForm sel)))"
  unfolding serializeForm_def
  by (intro fold_textarea_each_names_defined fold_select_each_names_defined
      fold_input_each_names_defined) (simp add: names_defined_def)

lemma fold_Values_Add_apply:
  "fold (\<lambda>v fs. Values_Add fs k v) vals g n = (if n = k then appended (g k) vals else g n)"
  by (induction vals arbitrary: g)
    (simp_all add: appended_Nil Values_Add_apply appended_appended)

lemma apply_op_names_defined:
  assumes "names_defined (definedFields f) (fields_map f)"
  shows "names_defined (definedFields (fst (apply_op op f))) (fields_map (fst (apply_op op f)))"
  using assms
  by (cases op)
    (auto simp add: names_defined_def Input_def InputSlice_def CheckBox_def DeleteField_def
      Values_Set_def Values_Del_def fold_Values_Add_apply)

lemma run_ops_names_defined:
  "names_defined (definedFields f) (fields_map f) \<Longrightarrow>
   names_defined (definedFields (run_ops ops f)) (fields_map (run_ops ops f))"
  unfolding run_ops_def
  by (induction ops arbitrary: f) (simp_all add: apply_op_names_defined)

lemma uncheckedForm_eval:
  "index_bool (definedFields (NewForm b uncheckedForm)) ''news''"
  "fields_map (NewForm b uncheckedForm) ''news'' = None"
  by (simp_all add: NewForm_def serializeForm_def uncheckedForm_def find_defs each_defs val_defs
      split: prod.splits)

text \<open>
  C3. On a form made by \<open>NewForm\<close> and after any sequence of \<open>Input\<close>, \<open>InputSlice\<close>,
  \<open>CheckBox\<close> and \<open>DeleteField\<close> calls, failing ones included, every name with an entry in
  FieldSet is in DefinedFields. The converse does not hold: the name of an unchecked
  checkbox is defined and has no entry.
\<close>

theorem FieldSet_within_DefinedFields:
  "(fields_map (run_ops ops (NewForm b sel)) name \<noteq> None \<longrightarrow>
      index_bool (definedFields (run_ops ops (NewForm b sel))) name) \<and>
   index_bool (definedFields (NewForm b uncheckedForm)) ''news'' \<and>
   fields_map (NewForm b uncheckedForm) ''news'' = None"
proof -
  have "names_defined (definedFields (NewForm b sel)) (fields_map (NewForm b sel))"
    by (simp add: NewForm_parts serializeForm_names_defined)
  then have "names_defined (definedFields (run_ops ops (NewForm b sel)))
               (fields_map (run_ops ops (NewForm b sel)))"
    by (rule run_ops_names_defined)
  then show ?thesis
    by (simp add: names_defined_def uncheckedForm_eval)
qed

theorem FieldSet_within_DefinedFields_witness:
  "fields_map
     (run_ops [OpInput ''age'' ''54'', OpInput ''agee'' ''54'',
               OpCheckBox ''music'' [''rock'', ''fusion''],
               OpCheckBox ''music2'' [''rock'', ''fusion''],
               OpDeleteField ''will_be_deleted'']
        (NewForm test_bow htmlForm2)) ''music'' = Some [''rock'', ''fusion''] \<and>
   index_bool (definedFields
     (run_ops [OpInput ''age'' ''54'', OpInput ''agee'' ''54'',
               OpCheckBox ''music'' [''rock'', ''fusion''],
               OpCheckBox ''music2'' [''rock'', ''fusion''],
               OpDeleteField ''will_be_deleted'']
        (NewForm test_bow htmlForm2))) ''music''"
proof -
  let ?ops = "[OpInput ''age'' ''54'', OpInput ''agee'' ''54'',
               OpCheckBox ''music'' [''rock'', ''fusion''],
               OpCheckBox ''music2'' [''rock'', ''fusion''],
               OpDeleteField ''will_be_deleted'']"
  have v: "fields_map (run_ops ?ops (NewForm test_bow htmlForm2)) ''music''
             = Some [''rock'', ''fusion'']"
    by (simp add: run_ops_def Input_def InputSlice_def CheckBox_def DeleteField_def
        htmlForm2_defined htmlForm2_fields Values_Add_def Values_Set_def Values_Del_def)
  with FieldSet_within_DefinedFields [of ?ops test_bow htmlForm2 "''music''"]
  show ?thesis by simp
qed

section \<open>Extraction of the controls, by kind\<close>

lemma appended_None_case:
  "appended None vs = (case vs of [] \<Rightarrow> None | v # ws \<Rightarrow> Some (v # ws))"
  by (simp add: appended_def split: list.splits)

lemma named_Find:
  "filter (\<lambda>x. Attr x ''name'' = Some n) (Find sel tags)
     = filter (\<lambda>x. \<exists>t \<in> set tags. is_tag t x)
         (filter (\<lambda>x. Attr x ''name'' = Some n) (descendants sel))"
  by (simp add: Find_def conj_commute)

lemma NewForm_defined_iff:
  "index_bool (definedFields (NewForm b sel)) n \<longleftrightarrow>
     (\<exists>e \<in> set (descendants sel).
        (is_tag ''input'' e \<or> is_tag ''button'' e) \<and> input_marks n e) \<or>
     (\<exists>e \<in> set (descendants sel). is_tag ''select'' e \<and> Attr e ''name'' = Some n) \<or>
     (\<exists>e \<in> set (descendants sel). is_tag ''textarea'' e \<and> Attr e ''name'' = Some n)"
  by (auto simp add: NewForm_parts serializeForm_defined Find_mem)

lemma no_other_tag:
  assumes "\<forall>x \<in> set (descendants sel). Attr x ''name'' = Some n \<longrightarrow>
             is_tag ''input'' x \<or> is_tag ''button'' x"
    and "t \<noteq> ''input''" and "t \<noteq> ''button''"
  shows "\<forall>e \<in> set (Find sel [t]). Attr e ''name'' \<noteq> Some n"
proof (intro ballI notI)
  fix e
  assume e: "e \<in> set (Find sel [t])" and n: "Attr e ''name'' = Some n"
  from e have d: "e \<in> set (descendants sel)" and t: "is_tag t e"
    by (simp_all add: Find_mem)
  from assms(1) d n have "is_tag ''input'' e \<or> is_tag ''button'' e" by blast
  with t assms(2,3) show False
    using is_tag_unique by blast
qed

text \<open>
  C4 (amended). For a descendant \<^verbatim>\<open>input\<close> element with a \<^verbatim>\<open>name\<close> attribute and a
  \<^verbatim>\<open>type\<close> attribute that is present and is not \<^verbatim>\<open>submit\<close>, \<^verbatim>\<open>radio\<close> or \<^verbatim>\<open>checkbox\<close>:
  the name is in DefinedFields after extraction; at the element the extraction marks
  the name and appends the \<^verbatim>\<open>value\<close> attribute to the name's values when it is present,
  and leaves the values as they are when it is absent; a present value is among the
  name's values of the new form; and when the element is the only descendant that
  carries the name, the name's entry is the single value, or no entry at all when the
  element has no \<^verbatim>\<open>value\<close> attribute.
\<close>

theorem typed_input_extraction:
  assumes "e \<in> set (descendants sel)" and "is_tag ''input'' e"
    and "Attr e ''name'' = Some n" and "Attr e ''type'' = Some t"
    and "t \<noteq> ''submit''" and "t \<noteq> ''radio''" and "t \<noteq> ''checkbox''"
  shows "index_bool (definedFields (NewForm b sel)) n \<and>
    (\<forall>d f bs. input_each e (d, f, bs) =
        (d(n \<mapsto> True),
         (case Attr e ''value'' of Some v \<Rightarrow> Values_Add f n v | None \<Rightarrow> f),
         bs)) \<and>
    (\<forall>v. Attr e ''value'' = Some v \<longrightarrow>
        (\<exists>vs. fields_map (NewForm b sel) n = Some vs \<and> v \<in> set vs)) \<and>
    (filter (\<lambda>x. Attr x ''name'' = Some n) (descendants sel) = [e] \<longrightarrow>
        fields_map (NewForm b sel) n = (case Attr e ''value'' of Some v \<Rightarrow> Some [v] | None \<Rightarrow> None))"
proof (intro conjI allI impI)
  have marks: "input_marks n e"
    using assms by (simp add: input_marks_def)
  with assms(1,2) show "index_bool (definedFields (NewForm b sel)) n"
    by (auto simp add: NewForm_defined_iff)
next
  fix d f bs
  from assms show "input_each e (d, f, bs) =
        (d(n \<mapsto> True),
         (case Attr e ''value'' of Some v \<Rightarrow> Values_Add f n v | None \<Rightarrow> f),
         bs)"
    by (simp add: input_each_def split: option.splits)
next
  fix v
  assume v: "Attr e ''value'' = Some v"
  from assms v have "input_values n e = [v]"
    by (simp add: input_values_def)
  moreover from assms(1,2) have "e \<in> set (Find sel [''input'', ''button''])"
    by (simp add: Find_mem)
  ultimately have "v \<in> set (concat (map (input_values n) (Find sel [''input'', ''button''])))"
    by force
  from appended_mem [OF this, of None]
  obtain vs where vs: "appended None (concat (map (input_values n) (Find sel [''input'', ''button''])))
      = Some vs" "v \<in> set vs" by blast
  from serializeForm_fields_grows [OF vs(1)] vs(2)
  show "\<exists>vs. fields_map (NewForm b sel) n = Some vs \<and> v \<in> set vs"
    by (auto simp add: NewForm_parts)
next
  assume only: "filter (\<lambda>x. Attr x ''name'' = Some n) (descendants sel) = [e]"
  then have all: "\<forall>x \<in> set (descendants sel). Attr x ''name'' = Some n \<longrightarrow> x = e"
  proof (intro ballI impI)
    fix x
    assume "x \<in> set (descendants sel)" and "Attr x ''name'' = Some n"
    then have "x \<in> set (filter (\<lambda>x. Attr x ''name'' = Some n) (descendants sel))"
      by simp
    with only show "x = e" by simp
  qed
  with assms(2) have tags: "\<forall>x \<in> set (descendants sel). Attr x ''name'' = Some n \<longrightarrow>
             is_tag ''input'' x \<or> is_tag ''button'' x"
    by blast
  have "fields_map (NewForm b sel) n
      = appended None (concat (map (input_values n) (Find sel [''input'', ''button''])))"
    unfolding NewForm_parts
    by (rule serializeForm_fields_inputs_only) (rule no_other_tag [OF tags]; simp)+
  also have "\<dots> = appended None (concat (map (input_values n)
      (filter (\<lambda>x. Attr x ''name'' = Some n) (Find sel [''input'', ''button'']))))"
    by (simp add: input_values_named [symmetric])
  also have "\<dots> = appended None (input_values n e)"
    using assms(2) by (simp add: named_Find only)
  also have "\<dots> = (case Attr e ''value'' of Some v \<Rightarrow> Some [v] | None \<Rightarrow> None)"
    using assms by (simp add: input_values_def appended_def split: option.splits)
  finally show "fields_map (NewForm b sel) n
      = (case Attr e ''value'' of Some v \<Rightarrow> Some [v] | None \<Rightarrow> None)" .
qed

theorem typed_input_extraction_witness:
  "Element ''input'' [(''type'', ''text''), (''name'', ''age''), (''value'', ''55'')] []
     \<in> set (descendants htmlForm2) \<and>
   filter (\<lambda>x. Attr x ''name'' = Some ''age'') (descendants htmlForm2)
     = [Element ''input'' [(''type'', ''text''), (''name'', ''age''), (''value'', ''55'')] []] \<and>
   index_bool (definedFields (NewForm test_bow htmlForm2)) ''age'' \<and>
   fields_map (NewForm test_bow htmlForm2) ''age'' = Some [''55'']"
proof -
  let ?e = "Element ''input'' [(''type'', ''text''), (''name'', ''age''), (''value'', ''55'')] []"
  have d: "?e \<in> set (descendants htmlForm2)"
    by (simp add: htmlForm2_def)
  have only: "filter (\<lambda>x. Attr x ''name'' = Some ''age'') (descendants htmlForm2) = [?e]"
    by (simp add: htmlForm2_def)
  from typed_input_extraction [of ?e htmlForm2 "''age''" "''text''" test_bow] d only
  show ?thesis by simp
qed

text \<open>
  The claim C4 as stated fails for an input that carries no \<^verbatim>\<open>type\<close> attribute: the
  extraction passes it over, so its name is not defined and its value is not recorded.
\<close>

theorem untyped_input_counterexample:
  "Element ''input'' [(''name'', ''q''), (''value'', ''x'')] [] \<in> set (descendants untypedInputForm) \<and>
   \<not> index_bool (definedFields (NewForm test_bow untypedInputForm)) ''q'' \<and>
   fields_map (NewForm test_bow untypedInputForm) ''q'' = None"
  by (simp add: NewForm_def serializeForm_def untypedInputForm_def find_defs each_defs val_defs
      split: prod.splits)

text \<open>
  C5 (amended). For a descendant \<^verbatim>\<open>input\<close> or \<^verbatim>\<open>button\<close> element with a \<^verbatim>\<open>name\<close> attribute
  and the \<^verbatim>\<open>type\<close> attribute \<^verbatim>\<open>submit\<close>: at the element the extraction adds the pair of the
  name and the \<^verbatim>\<open>value\<close> attribute (the empty string when absent) to ButtonSet and
  changes neither DefinedFields nor FieldSet; the value is among the name's values in
  the ButtonSet of the new form; and a name that is carried by such submit controls
  only is not in DefinedFields.
\<close>

theorem submit_control_extraction:
  assumes "e \<in> set (descendants sel)" and "is_tag ''input'' e \<or> is_tag ''button'' e"
    and "Attr e ''name'' = Some n" and "Attr e ''type'' = Some ''submit''"
  shows "(\<forall>d f bs. input_each e (d, f, bs) =
            (d, f, Values_Add bs n (case Attr e ''value'' of Some v \<Rightarrow> v | None \<Rightarrow> ''''))) \<and>
    (\<exists>vs. buttons (NewForm b sel) n = Some vs \<and>
           (case Attr e ''value'' of Some v \<Rightarrow> v | None \<Rightarrow> '''') \<in> set vs) \<and>
    ((\<forall>x \<in> set (descendants sel). Attr x ''name'' = Some n \<longrightarrow>
         (is_tag ''input'' x \<or> is_tag ''button'' x) \<and> Attr x ''type'' = Some ''submit'') \<longrightarrow>
       \<not> index_bool (definedFields (NewForm b sel)) n)"
proof (intro conjI allI impI)
  fix d f bs
  from assms show "input_each e (d, f, bs) =
            (d, f, Values_Add bs n (case Attr e ''value'' of Some v \<Rightarrow> v | None \<Rightarrow> ''''))"
    by (simp add: input_each_def split: option.splits)
next
  let ?v = "case Attr e ''value'' of Some v \<Rightarrow> v | None \<Rightarrow> ''''"
  from assms have "button_values n e = [?v]"
    by (simp add: button_values_def)
  moreover from assms(1,2) have "e \<in> set (Find sel [''input'', ''button''])"
    by (auto simp add: Find_mem)
  ultimately have "?v \<in> set (concat (map (button_values n) (Find sel [''input'', ''button''])))"
    by force
  from appended_mem [OF this, of None]
  show "\<exists>vs. buttons (NewForm b sel) n = Some vs \<and> ?v \<in> set vs"
    by (simp add: NewForm_parts serializeForm_buttons_values)
next
  assume only: "\<forall>x \<in> set (descendants sel). Attr x ''name'' = Some n \<longrightarrow>
         (is_tag ''input'' x \<or> is_tag ''button'' x) \<and> Attr x ''type'' = Some ''submit''"
  show "\<not> index_bool (definedFields (NewForm b sel)) n"
  proof
    assume "index_bool (definedFields (NewForm b sel)) n"
    then consider
      (inp) x where "x \<in> set (descendants sel)" "input_marks n x"
      | (other) x where "x \<in> set (descendants sel)" "Attr x ''name'' = Some n"
          "is_tag ''select'' x \<or> is_tag ''textarea'' x"
      by (auto simp add: NewForm_defined_iff)
    then show False
    proof cases
      case inp
      with only show False by (auto simp add: input_marks_def)
    next
      case other
      with only have "is_tag ''input'' x \<or> is_tag ''button'' x" by blast
      with other(3) show False
        using is_tag_unique [of "''input''" x] is_tag_unique [of "''button''" x] by auto
    qed
  qed
qed

theorem submit_control_extraction_witness:
  "Element ''input'' [(''type'', ''submit''), (''name'', ''submit2''), (''value'', ''submitted2'')] []
     \<in> set (descendants htmlForm) \<and>
   filter (\<lambda>x. Attr x ''name'' = Some ''submit2'') (descendants htmlForm)
     = [Element ''input''
          [(''type'', ''submit''), (''name'', ''submit2''), (''value'', ''submitted2'')] []] \<and>
   (\<exists>vs. buttons (NewForm test_bow htmlForm) ''submit2'' = Some vs \<and> ''submitted2'' \<in> set vs) \<and>
   \<not> index_bool (definedFields (NewForm test_bow htmlForm)) ''submit2''"
proof -
  let ?e = "Element ''input''
      [(''type'', ''submit''), (''name'', ''submit2''), (''value'', ''submitted2'')] []"
  have d: "?e \<in> set (descendants htmlForm)"
    by (simp add: htmlForm_def)
  have only: "\<forall>x \<in> set (descendants htmlForm). Attr x ''name'' = Some ''submit2'' \<longrightarrow>
      (is_tag ''input'' x \<or> is_tag ''button'' x) \<and> Attr x ''type'' = Some ''submit''"
    by (simp add: htmlForm_def)
  have named: "filter (\<lambda>x. Attr x ''name'' = Some ''submit2'') (descendants htmlForm) = [?e]"
    by (simp add: htmlForm_def)
  from submit_control_extraction [of ?e htmlForm "''submit2''" test_bow] d only named
  show ?thesis by simp
qed

text \<open>
  The claim C5 as stated fails for a \<^verbatim>\<open>button\<close> element that carries no \<^verbatim>\<open>type\<close> attribute:
  the extraction passes it over and ButtonSet has no entry for its name.
\<close>

theorem untyped_button_counterexample:
  "Element ''button'' [(''name'', ''go''), (''value'', ''1'')] [TextNode ''Go'']
     \<in> set (descendants untypedButtonForm) \<and>
   buttons (NewForm test_bow untypedButtonForm) ''go'' = None"
  by (simp add: NewForm_def serializeForm_def untypedButtonForm_def find_defs each_defs val_defs
      split: prod.splits)

lemma checked_values_inputs:
  assumes "\<forall>x \<in> set xs. Attr x ''name'' = Some n \<and>
             (Attr x ''type'' = Some ''radio'' \<or> Attr x ''type'' = Some ''checkbox'')"
  shows "concat (map (input_values n) xs) = checked_values xs"
  using assms
  by (induction xs) (auto simp add: checked_values_def input_values_def split: option.splits)

lemma send_post_urlencoded:
  assumes "send_target f = Inr aurl"
    and "Attr (selection f) ''method'' = Some ''post''"
    and "Attr (selection f) ''enctype'' = None"
  shows "send f bn bv =
     ([PostForm aurl (if bn \<noteq> '''' then Values_Set (fields_map f) bn bv else fields_map f)],
      transport (bow f)
        (PostForm aurl (if bn \<noteq> '''' then Values_Set (fields_map f) bn bv else fields_map f)))"
  using assms by (simp add: send_dispatched Let_def ToUpper_post)

lemma htmlForm2_attrs:
  "Attr htmlForm2 ''method'' = Some ''post''"
  "Attr htmlForm2 ''enctype'' = None"
  by (simp_all add: htmlForm2_def)

text \<open>
  C6. For a descendant \<^verbatim>\<open>input\<close> of type \<^verbatim>\<open>radio\<close> or \<^verbatim>\<open>checkbox\<close> with a \<^verbatim>\<open>name\<close>
  attribute: the name is in DefinedFields after extraction; at the element the
  extraction marks the name and appends the \<^verbatim>\<open>value\<close> attribute to the name's values
  when both a \<^verbatim>\<open>checked\<close> attribute (whatever its value) and a \<^verbatim>\<open>value\<close> attribute are
  present, and leaves the values as they are otherwise; and when all descendants that
  carry the name are such inputs, the name's entry in the new form is the list of the
  values of the checked ones in document order (no entry when there is none). On the
  form \<^verbatim>\<open>htmlForm2\<close> of the tests, with the checkboxes \<^verbatim>\<open>music\<close> = jazz (checked), rock,
  fusion (checked): the initial entry is jazz, fusion; \<open>CheckBox\<close> with rock, fusion
  returns no error; \<open>Submit\<close> on the form after it has an outcome, and every outcome is
  one url-encoded POST whose values map \<^verbatim>\<open>music\<close> to rock, fusion.
\<close>

theorem checkable_input_extraction:
  assumes "e \<in> set (descendants sel)" and "is_tag ''input'' e"
    and "Attr e ''name'' = Some n"
    and "Attr e ''type'' = Some ''radio'' \<or> Attr e ''type'' = Some ''checkbox''"
  shows "index_bool (definedFields (NewForm b sel)) n \<and>
    (\<forall>d f bs. input_each e (d, f, bs) =
        (d(n \<mapsto> True),
         (case Attr e ''checked'' of
            None \<Rightarrow> f
          | Some c \<Rightarrow> (case Attr e ''value'' of None \<Rightarrow> f | Some v \<Rightarrow> Values_Add f n v)),
         bs)) \<and>
    ((\<forall>x \<in> set (descendants sel). Attr x ''name'' = Some n \<longrightarrow>
         is_tag ''input'' x \<and>
         (Attr x ''type'' = Some ''radio'' \<or> Attr x ''type'' = Some ''checkbox'')) \<longrightarrow>
       fields_map (NewForm b sel) n =
         (case checked_values (filter (\<lambda>x. Attr x ''name'' = Some n) (descendants sel)) of
            [] \<Rightarrow> None
          | v # vs \<Rightarrow> Some (v # vs))) \<and>
    fields_map (NewForm test_bow htmlForm2) ''music'' = Some [''jazz'', ''fusion''] \<and>
    snd (CheckBox (NewForm test_bow htmlForm2) ''music'' [''rock'', ''fusion'']) = None \<and>
    Submit (fst (CheckBox (NewForm test_bow htmlForm2) ''music'' [''rock'', ''fusion'']))
      (Click (fst (CheckBox (NewForm test_bow htmlForm2) ''music'' [''rock'', ''fusion'']))
         ''submit2'') \<and>
    (Submit (fst (CheckBox (NewForm test_bow htmlForm2) ''music'' [''rock'', ''fusion''])) r \<longrightarrow>
       (\<exists>aurl sent. r = ([PostForm aurl sent], None) \<and>
          sent ''music'' = Some [''rock'', ''fusion'']))"
proof (intro conjI allI impI)
  from assms have "input_marks n e"
    by (auto simp add: input_marks_def)
  with assms(1,2) show "index_bool (definedFields (NewForm b sel)) n"
    by (auto simp add: NewForm_defined_iff)
next
  fix d f bs
  from assms show "input_each e (d, f, bs) =
        (d(n \<mapsto> True),
         (case Attr e ''checked'' of
            None \<Rightarrow> f
          | Some c \<Rightarrow> (case Attr e ''value'' of None \<Rightarrow> f | Some v \<Rightarrow> Values_Add f n v)),
         bs)"
    by (auto simp add: input_each_def split: option.splits)
next
  assume all: "\<forall>x \<in> set (descendants sel). Attr x ''name'' = Some n \<longrightarrow>
         is_tag ''input'' x \<and>
         (Attr x ''type'' = Some ''radio'' \<or> Attr x ''type'' = Some ''checkbox'')"
  let ?named = "filter (\<lambda>x. Attr x ''name'' = Some n) (descendants sel)"
  from all have tags: "\<forall>x \<in> set (descendants sel). Attr x ''name'' = Some n \<longrightarrow>
             is_tag ''input'' x \<or> is_tag ''button'' x"
    by blast
  have "fields_map (NewForm b sel) n
      = appended None (concat (map (input_values n) (Find sel [''input'', ''button''])))"
    unfolding NewForm_parts
    by (rule serializeForm_fields_inputs_only) (rule no_other_tag [OF tags]; simp)+
  also have "\<dots> = appended None (concat (map (input_values n)
      (filter (\<lambda>x. Attr x ''name'' = Some n) (Find sel [''input'', ''button'']))))"
    by (simp add: input_values_named [symmetric])
  also have "filter (\<lambda>x. Attr x ''name'' = Some n) (Find sel [''input'', ''button'']) = ?named"
    unfolding named_Find using all by (intro filter_True) auto
  also have "concat (map (input_values n) ?named) = checked_values ?named"
    using all by (intro checked_values_inputs) auto
  finally show "fields_map (NewForm b sel) n =
         (case checked_values ?named of [] \<Rightarrow> None | v # vs \<Rightarrow> Some (v # vs))"
    by (simp add: appended_None_case)
next
  show "fields_map (NewForm test_bow htmlForm2) ''music'' = Some [''jazz'', ''fusion'']"
    by (simp add: htmlForm2_fields)
next
  show "snd (CheckBox (NewForm test_bow htmlForm2) ''music'' [''rock'', ''fusion'']) = None"
    by (simp add: CheckBox_def InputSlice_def htmlForm2_defined)
next
  let ?F = "fst (CheckBox (NewForm test_bow htmlForm2) ''music'' [''rock'', ''fusion''])"
  have "buttons ?F = [''submit2'' \<mapsto> [''submitted2'']]"
    by (simp add: CheckBox_def InputSlice_def htmlForm2_defined htmlForm2_buttons)
  then have "buttons ?F \<noteq> Map.empty" and "''submit2'' \<in> dom (buttons ?F)"
    by simp_all
  then show "Submit ?F (Click ?F ''submit2'')"
    by (rule Submit_click)
next
  let ?F = "fst (CheckBox (NewForm test_bow htmlForm2) ''music'' [''rock'', ''fusion''])"
  assume sub: "Submit ?F r"
  have F: "?F = (NewForm test_bow htmlForm2)
      \<lparr>fields_map := fold (\<lambda>v fs. Values_Add fs ''music'' v) [''rock'', ''fusion'']
          (Values_Del (fields_map (NewForm test_bow htmlForm2)) ''music'')\<rparr>"
    by (simp add: CheckBox_def InputSlice_def htmlForm2_defined)
  have b: "buttons ?F = [''submit2'' \<mapsto> [''submitted2'']]"
    by (simp add: F htmlForm2_buttons)
  have t: "send_target ?F = Inr ''http://127.0.0.1/''"
    by (simp add: F send_target_fields_map htmlForm2_target)
  have m: "fields_map ?F ''music'' = Some [''rock'', ''fusion'']"
    by (simp add: F Values_Add_def Values_Del_def)
  have s: "selection ?F = htmlForm2" and w: "bow ?F = test_bow"
    by (simp_all add: F NewForm_parts)
  have click: "Click ?F ''submit2'' =
      ([PostForm ''http://127.0.0.1/'' (Values_Set (fields_map ?F) ''submit2'' ''submitted2'')], None)"
    by (simp add: Click_def b send_post_urlencoded [OF t] s w htmlForm2_attrs test_bow_transport)
  from sub have "r = Click ?F ''submit2''"
  proof cases
    case (Submit_click name)
    with b show ?thesis by (auto split: if_splits)
  next
    case Submit_plain
    then have "buttons ?F ''submit2'' = None" by simp
    with b show ?thesis by simp
  qed
  with click m show "\<exists>aurl sent. r = ([PostForm aurl sent], None) \<and>
          sent ''music'' = Some [''rock'', ''fusion'']"
    by (simp add: Values_Set_def)
qed

theorem checkable_input_extraction_witness:
  "Element ''input''
     [(''type'', ''checkbox''), (''name'', ''music''), (''value'', ''jazz''), (''checked'', ''checked'')] []
     \<in> set (descendants htmlForm2) \<and>
   filter (\<lambda>x. Attr x ''name'' = Some ''music'') (descendants htmlForm2)
     = [Element ''input''
          [(''type'', ''checkbox''), (''name'', ''music''), (''value'', ''jazz''),
           (''checked'', ''checked'')] [],
        Element ''input'' [(''type'', ''checkbox''), (''name'', ''music''), (''value'', ''rock'')] [],
        Element ''input''
          [(''type'', ''checkbox''), (''name'', ''music''), (''value'', ''fusion''),
           (''checked'', '''')] []] \<and>
   checked_values (filter (\<lambda>x. Attr x ''name'' = Some ''music'') (descendants htmlForm2))
     = [''jazz'', ''fusion''] \<and>
   index_bool (definedFields (NewForm test_bow htmlForm2)) ''music'' \<and>
   fields_map (NewForm test_bow htmlForm2) ''music'' = Some [''jazz'', ''fusion''] \<and>
   Submit (fst (CheckBox (NewForm test_bow htmlForm2) ''music'' [''rock'', ''fusion'']))
      (Click (fst (CheckBox (NewForm test_bow htmlForm2) ''music'' [''rock'', ''fusion'']))
         ''submit2'') \<and>
   (\<exists>aurl sent.
      Click (fst (CheckBox (NewForm test_bow htmlForm2) ''music'' [''rock'', ''fusion'']))
         ''submit2'' = ([PostForm aurl sent], None) \<and>
      sent ''music'' = Some [''rock'', ''fusion''])"
proof -
  let ?e = "Element ''input''
     [(''type'', ''checkbox''), (''name'', ''music''), (''value'', ''jazz''), (''checked'', ''checked'')] []"
  have d: "?e \<in> set (descendants htmlForm2)"
    by (simp add: htmlForm2_def)
  have all: "\<forall>x \<in> set (descendants htmlForm2). Attr x ''name'' = Some ''music'' \<longrightarrow>
      is_tag ''input'' x \<and>
      (Attr x ''type'' = Some ''radio'' \<or> Attr x ''type'' = Some ''checkbox'')"
    by (simp add: htmlForm2_def)
  have cv: "checked_values (filter (\<lambda>x. Attr x ''name'' = Some ''music'') (descendants htmlForm2))
     = [''jazz'', ''fusion'']"
    by (simp add: htmlForm2_def checked_values_def)
  have named: "filter (\<lambda>x. Attr x ''name'' = Some ''music'') (descendants htmlForm2)
     = [?e,
        Element ''input'' [(''type'', ''checkbox''), (''name'', ''music''), (''value'', ''rock'')] [],
        Element ''input''
          [(''type'', ''checkbox''), (''name'', ''music''), (''value'', ''fusion''),
           (''checked'', '''')] []]"
    by (simp add: htmlForm2_def)
  from checkable_input_extraction
    [of ?e htmlForm2 "''music''" test_bow
        "Click (fst (CheckBox (NewForm test_bow htmlForm2) ''music'' [''rock'', ''fusion'']))
           ''submit2''"]
    d all cv named
  show ?thesis by simp
qed

end
